theory Spec2Isabelle
  imports Main
begin

section \<open>The migration runner (scripts/run\_migrations.py)\<close>

text \<open>
  The script reads each file of a fixed list from the migrations directory, submits its
  text through one remote procedure call and stops at the first failure. Everything the
  script touches is made explicit: the local filesystem, the remote side, the calls made
  to the remote side and the console.
\<close>

subsection \<open>Data\<close>

text \<open>A path is the list of its components; \<open>migrations_dir / filename\<close> appends one.\<close>

type_synonym path = "string list"

text \<open>
  An exception caught by \<open>except Exception as e\<close>, carrying \<open>str(e)\<close>. The operations
  that raise in the script (opening and reading a file, the remote call) raise subclasses
  of \<open>Exception\<close>.
\<close>

datatype exn = Exception string

text \<open>
  What the filesystem holds at a path: nothing; something on which the existence test
  itself raises (\<open>Path.exists\<close> passes on every \<open>OSError\<close> other than a missing
  file, a missing directory, a bad descriptor or a symlink loop: no permission to
  search a directory of the path, a name that is too long); something that exists but
  whose \<open>open\<close> or \<open>read\<close> raises (a directory, no permission to read, bytes that do
  not decode); or a file with its text.
\<close>

datatype fs_entry = Absent | Inaccessible exn | Unreadable exn | Regular string

text \<open>One call \<open>supabase.rpc(name, params).execute()\<close>: the function name and the dict.\<close>

type_synonym request = "string \<times> (string \<times> string) list"

text \<open>The lines the script prints, one constructor for each \<open>print\<close> statement.\<close>

datatype line =
    Banner
  | Project
  | Total nat
  | Skipping string
  | Done string
  | Error string string
  | MigrationFailed string
  | Stopping
  | AllCompleted
  | NextSteps
  | Step1
  | Step2
  | Step3

text \<open>
  The world the script runs in. \<open>files\<close> is the local filesystem, \<open>remote\<close> the state
  behind the network interface (the database and the link to it), \<open>rpc_calls\<close> the calls
  made to the remote side so far, in order, and \<open>stdout\<close> the console.
\<close>

record 'r world =
  files :: "path \<Rightarrow> fs_entry"
  remote :: 'r
  rpc_calls :: "request list"
  stdout :: "line list"

text \<open>
  What the script is given: where it lives (\<open>__file__\<close>) and how the remote side
  answers a call in a given state: it raises or returns, and moves to a new state.
  The response object is bound to \<open>result\<close> and never used, so it carries nothing.
\<close>

record 'r env =
  script_file :: path
  execute :: "request \<Rightarrow> 'r \<Rightarrow> (exn + unit) \<times> 'r"

subsection \<open>Primitive operations\<close>

text \<open>
  \<open>print\<close> is total here: it returns and does not raise. The operations of the script
  that can raise are the existence test, the read of a file and the remote call.
\<close>

definition print :: "line \<Rightarrow> 'r world \<Rightarrow> 'r world" where
  "print l w = w\<lparr>stdout := stdout w @ [l]\<rparr>"

definition parent :: "path \<Rightarrow> path" where
  "parent p = butlast p"

definition joinpath :: "path \<Rightarrow> string \<Rightarrow> path" where
  "joinpath d name = d @ [name]"

text \<open>\<open>filepath.exists()\<close>\<close>

definition exists :: "path \<Rightarrow> 'r world \<Rightarrow> exn + bool" where
  "exists p w =
     (case files w p of
        Absent \<Rightarrow> Inr False
      | Inaccessible e \<Rightarrow> Inl e
      | Unreadable e \<Rightarrow> Inr True
      | Regular text \<Rightarrow> Inr True)"

text \<open>\<open>with open(filepath, 'r') as f: sql = f.read()\<close>\<close>

definition open_read :: "path \<Rightarrow> 'r world \<Rightarrow> exn + string" where
  "open_read p w =
     (case files w p of
        Absent \<Rightarrow> Inl (Exception ''[Errno 2] No such file or directory'')
      | Inaccessible e \<Rightarrow> Inl e
      | Unreadable e \<Rightarrow> Inl e
      | Regular text \<Rightarrow> Inr text)"

text \<open>\<open>supabase.rpc(name, params).execute()\<close>\<close>

definition rpc_execute ::
  "'r env \<Rightarrow> string \<Rightarrow> (string \<times> string) list \<Rightarrow> 'r world \<Rightarrow> (exn + unit) \<times> 'r world" where
  "rpc_execute env name params w =
     (case execute env (name, params) (remote w) of
        (r, d) \<Rightarrow> (r, w\<lparr>remote := d, rpc_calls := rpc_calls w @ [(name, params)]\<rparr>))"

subsection \<open>The script\<close>

definition migrations_dir :: "'r env \<Rightarrow> path" where
  "migrations_dir env = joinpath (joinpath (parent (parent (script_file env))) ''supabase'') ''migrations''"

definition migrations :: "string list" where
  "migrations =
     [''003_storage_buckets.sql'',
      ''004_analytics_views.sql'',
      ''20250104_oauth_tokens.sql'',
      ''20250104_speakers_tables.sql'']"

text \<open>
  The body of the \<open>try\<close> block of \<open>run_migration\<close>: \<open>Inl\<close> is an exception leaving the
  block, with the world as it was when it was raised.
\<close>

definition try_block :: "'r env \<Rightarrow> path \<Rightarrow> string \<Rightarrow> 'r world \<Rightarrow> (exn + bool) \<times> 'r world" where
  "try_block env filepath filename w =
     (case open_read filepath w of
        Inl e \<Rightarrow> (Inl e, w)
      | Inr sql \<Rightarrow>
          (case rpc_execute env ''exec_sql'' [(''query'', sql)] w of
             (Inl e, w1) \<Rightarrow> (Inl e, w1)
           | (Inr result, w1) \<Rightarrow> (Inr True, print (Done filename) w1)))"

text \<open>
  \<open>run_migration(filename)\<close>: \<open>Inl\<close> is an exception that leaves the function. The
  existence test is made before the \<open>try\<close> block, so what it raises is not caught.
\<close>

definition run_migration :: "'r env \<Rightarrow> string \<Rightarrow> 'r world \<Rightarrow> (exn + bool) \<times> 'r world" where
  "run_migration env filename w =
     (let filepath = joinpath (migrations_dir env) filename in
      case exists filepath w of
        Inl e \<Rightarrow> (Inl e, w)
      | Inr found \<Rightarrow>
          if \<not> found then (Inr True, print (Skipping filename) w)
          else
            (case try_block env filepath filename w of
               (Inl (Exception msg), w1) \<Rightarrow> (Inr False, print (Error filename msg) w1)
             | (Inr b, w1) \<Rightarrow> (Inr b, w1)))"

text \<open>
  The \<open>for\<close> loop of \<open>main\<close>: \<open>Inr (Some code)\<close> is the \<open>return\<close> inside the loop,
  \<open>Inr None\<close> the loop running to its end.
\<close>

fun for_migrations :: "'r env \<Rightarrow> string list \<Rightarrow> 'r world \<Rightarrow> (exn + int option) \<times> 'r world" where
  "for_migrations env [] w = (Inr None, w)"
| "for_migrations env (migration # rest) w =
     (case run_migration env migration w of
        (Inl e, w1) \<Rightarrow> (Inl e, w1)
      | (Inr success, w1) \<Rightarrow>
          if \<not> success then (Inr (Some 1), print Stopping (print (MigrationFailed migration) w1))
          else for_migrations env rest w1)"

definition header :: "string list \<Rightarrow> 'r world \<Rightarrow> 'r world" where
  "header ms w = print (Total (length ms)) (print Project (print Banner w))"

definition footer :: "'r world \<Rightarrow> 'r world" where
  "footer w = print Step3 (print Step2 (print Step1 (print NextSteps (print AllCompleted w))))"

text \<open>\<open>main()\<close>, with the global list \<open>migrations\<close> as a parameter.\<close>

definition main :: "'r env \<Rightarrow> string list \<Rightarrow> 'r world \<Rightarrow> (exn + int) \<times> 'r world" where
  "main env ms w =
     (case for_migrations env ms (header ms w) of
        (Inl e, w1) \<Rightarrow> (Inl e, w1)
      | (Inr (Some code), w1) \<Rightarrow> (Inr code, w1)
      | (Inr None, w1) \<Rightarrow> (Inr 0, footer w1))"

text \<open>
  \<open>exit(main())\<close>: the exit code of the process. An exception that nothing catches ends
  the interpreter with status 1.
\<close>

definition script :: "'r env \<Rightarrow> string list \<Rightarrow> 'r world \<Rightarrow> int \<times> 'r world" where
  "script env ms w =
     (case main env ms w of
        (Inl e, w1) \<Rightarrow> (1, w1)
      | (Inr code, w1) \<Rightarrow> (code, w1))"

subsection \<open>Outcomes\<close>

text \<open>
  The three outcomes of a migration. The source returns a boolean and tells the three
  apart only on the console: each call of \<open>run_migration\<close> that returns has printed
  one line naming its file, and which line it is gives the outcome. A call that the
  exception of the existence test leaves prints nothing and has no outcome.
\<close>

datatype outcome = Applied | SkippedMissing | Failed string

fun report :: "line \<Rightarrow> (string \<times> outcome) option" where
  "report (Skipping f) = Some (f, SkippedMissing)"
| "report (Done f) = Some (f, Applied)"
| "report (Error f reason) = Some (f, Failed reason)"
| "report _ = None"

definition outcomes :: "line list \<Rightarrow> (string \<times> outcome) list" where
  "outcomes ls = List.map_filter report ls"

definition is_failed :: "outcome \<Rightarrow> bool" where
  "is_failed out = (case out of Failed reason \<Rightarrow> True | _ \<Rightarrow> False)"

text \<open>What a run printed: the console after it, without what was there before.\<close>

definition printed :: "'r world \<Rightarrow> 'r world \<Rightarrow> line list" where
  "printed w w' = drop (length (stdout w)) (stdout w')"

text \<open>The outcomes of a whole run of the script, in the order they happened.\<close>

definition run_outcomes :: "'r env \<Rightarrow> string list \<Rightarrow> 'r world \<Rightarrow> (string \<times> outcome) list" where
  "run_outcomes env ms w = outcomes (printed w (snd (script env ms w)))"

text \<open>
  The remote call that running one migration makes, read off the filesystem: one call
  with the file's text when the file can be read, none otherwise.
\<close>

definition request_for :: "'r env \<Rightarrow> 'r world \<Rightarrow> string \<Rightarrow> request list" where
  "request_for env w f =
     (case files w (joinpath (migrations_dir env) f) of
        Regular sql \<Rightarrow> [(''exec_sql'', [(''query'', sql)])]
      | _ \<Rightarrow> [])"


subsection \<open>A small world to run the script in\<close>

text \<open>
  A repository with three migration files, a directory among them, and one name whose
  existence test is refused. The remote side counts the queries it has run and rejects
  the text \<open>bad sql\<close>.
\<close>

definition demo_env :: "nat env" where
  "demo_env =
     \<lparr>script_file = [''repo'', ''scripts'', ''run_migrations.py''],
      execute = (\<lambda>req n.
        if snd req = [(''query'', ''bad sql'')] then (Inl (Exception ''syntax error''), n)
        else (Inr (), Suc n))\<rparr>"

definition demo_files :: "path \<Rightarrow> fs_entry" where
  "demo_files p =
     (if p = [''repo'', ''supabase'', ''migrations'', ''a.sql''] then Regular ''create a''
      else if p = [''repo'', ''supabase'', ''migrations'', ''b.sql''] then Regular ''bad sql''
      else if p = [''repo'', ''supabase'', ''migrations'', ''c.sql''] then Regular ''create c''
      else if p = [''repo'', ''supabase'', ''migrations'', ''d.sql'']
        then Unreadable (Exception ''[Errno 21] Is a directory'')
      else if p = [''repo'', ''supabase'', ''migrations'', ''p.sql'']
        then Inaccessible (Exception ''[Errno 13] Permission denied'')
      else Absent)"

definition demo_world :: "nat world" where
  "demo_world = \<lparr>files = demo_files, remote = 0, rpc_calls = [], stdout = []\<rparr>"



section \<open>Properties\<close>

subsection \<open>The console and the outcomes read off it\<close>

lemma outcomes_append: "outcomes (a @ b) = outcomes a @ outcomes b"
  by (simp add: outcomes_def map_filter_def)

lemma outcomes_Nil: "outcomes [] = []"
  by (simp add: outcomes_def map_filter_def)

lemma outcomes_Cons:
  "outcomes (l # ls) = (case report l of None \<Rightarrow> outcomes ls | Some x \<Rightarrow> x # outcomes ls)"
  unfolding outcomes_def by simp

lemma outcomes_report: "report l = Some x \<Longrightarrow> outcomes [l] = [x]"
  by (simp add: outcomes_def map_filter_def)

lemma outcomes_single: "outcomes [l] = (case report l of None \<Rightarrow> [] | Some x \<Rightarrow> [x])"
  by (cases "report l") (simp_all add: outcomes_Cons outcomes_Nil)

lemma printed_append: "stdout w' = stdout w @ ls \<Longrightarrow> printed w w' = ls"
  by (simp add: printed_def)

lemma printed_print: "printed w (print l w) = [l]"
  by (simp add: printed_def print_def)


lemma header_stdout: "stdout (header ms w) = stdout w @ [Banner, Project, Total (length ms)]"
  by (simp add: header_def print_def)

lemma header_files: "files (header ms w) = files w"
  by (simp add: header_def print_def)

subsection \<open>One migration\<close>

lemma request_for_files: "files w1 = files w \<Longrightarrow> request_for env w1 = request_for env w"
  by (simp add: request_for_def fun_eq_iff)

lemma request_for_length: "length (request_for env w f) \<le> 1"
  by (cases "files w (joinpath (migrations_dir env) f)") (simp_all add: request_for_def)

lemma exists_files: "files w1 = files w \<Longrightarrow> exists p w1 = exists p w"
  by (simp add: exists_def)

text \<open>
  \<open>run_migration\<close> has five ways to go, decided by what the filesystem holds at the
  resolved path and by what the remote side answers. In the first an exception leaves
  the function: the one that the existence test raises.
\<close>

lemma run_migration_cases:
  obtains
    (inaccessible) e where "files w (joinpath (migrations_dir env) f) = Inaccessible e"
      "run_migration env f w = (Inl e, w)"
  | (skipped) "files w (joinpath (migrations_dir env) f) = Absent"
      "run_migration env f w = (Inr True, print (Skipping f) w)"
  | (unreadable) msg where "files w (joinpath (migrations_dir env) f) = Unreadable (Exception msg)"
      "run_migration env f w = (Inr False, print (Error f msg) w)"
  | (raised) sql msg d where "files w (joinpath (migrations_dir env) f) = Regular sql"
      "execute env (''exec_sql'', [(''query'', sql)]) (remote w) = (Inl (Exception msg), d)"
      "run_migration env f w =
         (Inr False, print (Error f msg)
            (w\<lparr>remote := d, rpc_calls := rpc_calls w @ [(''exec_sql'', [(''query'', sql)])]\<rparr>))"
  | (applied) sql u d where "files w (joinpath (migrations_dir env) f) = Regular sql"
      "execute env (''exec_sql'', [(''query'', sql)]) (remote w) = (Inr u, d)"
      "run_migration env f w =
         (Inr True, print (Done f)
            (w\<lparr>remote := d, rpc_calls := rpc_calls w @ [(''exec_sql'', [(''query'', sql)])]\<rparr>))"
proof (cases "files w (joinpath (migrations_dir env) f)")
  case Absent
  then show ?thesis using skipped
    by (simp add: run_migration_def exists_def)
next
  case (Inaccessible e)
  then show ?thesis using inaccessible
    by (simp add: run_migration_def exists_def)
next
  case (Unreadable e)
  then show ?thesis using unreadable
    by (cases e) (simp add: run_migration_def exists_def try_block_def open_read_def)
next
  case (Regular sql)
  obtain r d where ex: "execute env (''exec_sql'', [(''query'', sql)]) (remote w) = (r, d)"
    by (cases "execute env (''exec_sql'', [(''query'', sql)]) (remote w)")
  show ?thesis
  proof (cases r)
    case (Inl e)
    then show ?thesis using Regular ex raised
      by (cases e) (simp add: run_migration_def exists_def try_block_def open_read_def rpc_execute_def)
  next
    case (Inr u)
    then show ?thesis using Regular ex applied
      by (simp add: run_migration_def exists_def try_block_def open_read_def rpc_execute_def)
  qed
qed

text \<open>
  The same in two cases: either the existence test raises and its exception leaves the
  function with the world untouched, or the function returns, having printed one line
  that names the file and gives the outcome.
\<close>

lemma run_migration_step:
  obtains
    (escapes) e where
      "exists (joinpath (migrations_dir env) f) w = Inl e"
      "run_migration env f w = (Inl e, w)"
      "request_for env w f = []"
  | (returns) b l out w1 where
      "run_migration env f w = (Inr b, w1)"
      "stdout w1 = stdout w @ [l]"
      "report l = Some (f, out)"
      "is_failed out = (\<not> b)"
      "files w1 = files w"
      "rpc_calls w1 = rpc_calls w @ request_for env w f"
proof (cases rule: run_migration_cases [of w env f])
  case (inaccessible e)
  show ?thesis
    by (rule escapes [of e]) (simp_all add: inaccessible exists_def request_for_def)
next
  case skipped
  show ?thesis
    by (rule returns [of True "print (Skipping f) w" "Skipping f" SkippedMissing])
       (simp_all add: skipped print_def is_failed_def request_for_def)
next
  case (unreadable msg)
  show ?thesis
    by (rule returns [of False "print (Error f msg) w" "Error f msg" "Failed msg"])
       (simp_all add: unreadable print_def is_failed_def request_for_def)
next
  case (raised sql msg d)
  show ?thesis
    by (rule returns [of False _ "Error f msg" "Failed msg"], rule raised(3))
       (simp_all add: raised(1) print_def is_failed_def request_for_def)
next
  case (applied sql u d)
  show ?thesis
    by (rule returns [of True _ "Done f" Applied], rule applied(3))
       (simp_all add: applied(1) print_def is_failed_def request_for_def)
qed

lemma run_migration_frame: "files (snd (run_migration env f w)) = files w"
  by (rule run_migration_step [of env f w]) simp_all

lemma run_migration_calls:
  "rpc_calls (snd (run_migration env f w)) = rpc_calls w @ request_for env w f"
  by (rule run_migration_step [of env f w]) simp_all

lemma run_migration_absent:
  "files w (joinpath (migrations_dir env) f) = Absent \<Longrightarrow>
   run_migration env f w = (Inr True, print (Skipping f) w)"
  by (simp add: run_migration_def exists_def)

lemma run_migration_unreadable:
  "files w (joinpath (migrations_dir env) f) = Unreadable (Exception msg) \<Longrightarrow>
   run_migration env f w = (Inr False, print (Error f msg) w)"
  by (simp add: run_migration_def exists_def try_block_def open_read_def)

lemma try_block_raised:
  "files w p = Regular sql \<Longrightarrow>
   execute env (''exec_sql'', [(''query'', sql)]) (remote w) = (Inl e, d) \<Longrightarrow>
   try_block env p f w =
     (Inl e, w\<lparr>remote := d, rpc_calls := rpc_calls w @ [(''exec_sql'', [(''query'', sql)])]\<rparr>)"
  by (simp add: try_block_def open_read_def rpc_execute_def)

lemma run_migration_raised:
  "files w (joinpath (migrations_dir env) f) = Regular sql \<Longrightarrow>
   execute env (''exec_sql'', [(''query'', sql)]) (remote w) = (Inl (Exception msg), d) \<Longrightarrow>
   run_migration env f w =
     (Inr False, print (Error f msg)
        (w\<lparr>remote := d, rpc_calls := rpc_calls w @ [(''exec_sql'', [(''query'', sql)])]\<rparr>))"
  by (simp add: run_migration_def exists_def try_block_raised)

lemma run_migration_applied:
  "files w (joinpath (migrations_dir env) f) = Regular sql \<Longrightarrow>
   execute env (''exec_sql'', [(''query'', sql)]) (remote w) = (Inr u, d) \<Longrightarrow>
   run_migration env f w =
     (Inr True, print (Done f)
        (w\<lparr>remote := d, rpc_calls := rpc_calls w @ [(''exec_sql'', [(''query'', sql)])]\<rparr>))"
  by (simp add: run_migration_def exists_def try_block_def open_read_def rpc_execute_def)



subsection \<open>The loop and the whole run\<close>

text \<open>
  What the loop does, in one statement: it processes a prefix of the list, prints one
  outcome line for each entry of the prefix, makes the remote calls of those entries and
  leaves the filesystem alone. It ends in one of three ways: at the end of the list with
  no outcome Failed, by the \<open>return 1\<close> after an outcome Failed, or by the exception of
  the existence test of the next entry.
\<close>

lemma for_migrations_run:
  "\<exists>r w' ls k. for_migrations env ms w = (r, w') \<and> files w' = files w
     \<and> stdout w' = stdout w @ ls \<and> k \<le> length ms
     \<and> map fst (outcomes ls) = take k ms
     \<and> rpc_calls w' = rpc_calls w @ concat (map (request_for env w) (take k ms))
     \<and> (case r of
          Inr None \<Rightarrow> k = length ms \<and> (\<forall>x\<in>set (outcomes ls). \<not> is_failed (snd x))
        | Inr (Some c) \<Rightarrow> c = 1 \<and> (\<exists>pre f reason. outcomes ls = pre @ [(f, Failed reason)]
              \<and> (\<forall>x\<in>set pre. \<not> is_failed (snd x)))
        | Inl e \<Rightarrow> k < length ms \<and> (\<forall>x\<in>set (outcomes ls). \<not> is_failed (snd x))
              \<and> exists (joinpath (migrations_dir env) (ms ! k)) w = Inl e)"
proof (induction ms arbitrary: w)
  case Nil
  show ?case
    by (rule exI [of _ "Inr None"], rule exI [of _ w], rule exI [of _ "[]"], rule exI [of _ 0])
       (simp add: outcomes_Nil)
next
  case (Cons m ms)
  show ?case
  proof (cases rule: run_migration_step [of env m w])
    case (escapes e)
    have run: "for_migrations env (m # ms) w = (Inl e, w)"
      using escapes(2) by simp
    show ?thesis
      apply (rule exI [of _ "Inl e"], rule exI [of _ w])
      apply (rule exI [of _ "[]"], rule exI [of _ 0])
      apply (simp only: run)
      apply (simp add: outcomes_Nil escapes(1))
      done
  next
    case (returns b l out w1)
    note step = returns
    show ?thesis
    proof (cases b)
      case False
      then obtain reason where out: "out = Failed reason"
        using step(4) by (cases out) (simp_all add: is_failed_def)
      let ?w' = "print Stopping (print (MigrationFailed m) w1)"
      have run: "for_migrations env (m # ms) w = (Inr (Some 1), ?w')"
        using step(1) False by simp
      have lines: "stdout ?w' = stdout w @ [l, MigrationFailed m, Stopping]"
        by (simp add: print_def step(2))
      have outs: "outcomes [l, MigrationFailed m, Stopping] = [(m, Failed reason)]"
        using step(3) out by (simp add: outcomes_def map_filter_def)
      show ?thesis
        apply (rule exI [of _ "Inr (Some 1)"], rule exI [of _ ?w'])
        apply (rule exI [of _ "[l, MigrationFailed m, Stopping]"], rule exI [of _ 1])
        apply (simp only: run lines outs)
        apply (simp add: print_def step(5) step(6))
        done
    next
      case True
      from Cons.IH [of w1] obtain r w' ls k where ih:
        "for_migrations env ms w1 = (r, w')" "files w' = files w1"
        "stdout w' = stdout w1 @ ls" "k \<le> length ms"
        "map fst (outcomes ls) = take k ms"
        "rpc_calls w' = rpc_calls w1 @ concat (map (request_for env w1) (take k ms))"
        "(case r of
            Inr None \<Rightarrow> k = length ms \<and> (\<forall>x\<in>set (outcomes ls). \<not> is_failed (snd x))
          | Inr (Some c) \<Rightarrow> c = 1 \<and> (\<exists>pre f reason. outcomes ls = pre @ [(f, Failed reason)]
                \<and> (\<forall>x\<in>set pre. \<not> is_failed (snd x)))
          | Inl e \<Rightarrow> k < length ms \<and> (\<forall>x\<in>set (outcomes ls). \<not> is_failed (snd x))
                \<and> exists (joinpath (migrations_dir env) (ms ! k)) w1 = Inl e)"
        by blast
      have ok: "\<not> is_failed out" using step(4) True by simp
      have run: "for_migrations env (m # ms) w = (r, w')"
        using step(1) True ih(1) by simp
      have outs: "outcomes (l # ls) = (m, out) # outcomes ls"
        using outcomes_append [of "[l]" ls] outcomes_report [OF step(3)] by simp
      have rf: "request_for env w1 = request_for env w"
        by (rule request_for_files [OF step(5)])
      have ex: "exists p w1 = exists p w" for p
        by (rule exists_files [OF step(5)])
      have tail: "case r of
            Inr None \<Rightarrow> Suc k = length (m # ms)
                \<and> (\<forall>x\<in>set (outcomes (l # ls)). \<not> is_failed (snd x))
          | Inr (Some c) \<Rightarrow> c = 1 \<and> (\<exists>pre f reason. outcomes (l # ls) = pre @ [(f, Failed reason)]
                \<and> (\<forall>x\<in>set pre. \<not> is_failed (snd x)))
          | Inl e \<Rightarrow> Suc k < length (m # ms)
                \<and> (\<forall>x\<in>set (outcomes (l # ls)). \<not> is_failed (snd x))
                \<and> exists (joinpath (migrations_dir env) ((m # ms) ! Suc k)) w = Inl e"
      proof (cases r)
        case (Inl e)
        then show ?thesis using ih(7) ok by (simp add: outs ex)
      next
        case (Inr c)
        show ?thesis
        proof (cases c)
          case None
          then show ?thesis using Inr ih(7) ok by (simp add: outs)
        next
          case (Some n)
          then obtain pre f reason where p: "n = 1" "outcomes ls = pre @ [(f, Failed reason)]"
            "\<forall>x\<in>set pre. \<not> is_failed (snd x)"
            using Inr ih(7) by auto
          have "outcomes (l # ls) = ((m, out) # pre) @ [(f, Failed reason)]"
            by (simp add: outs p(2))
          moreover have "\<forall>x\<in>set ((m, out) # pre). \<not> is_failed (snd x)"
            using p(3) ok by simp
          ultimately show ?thesis using Inr Some p(1)
            by (simp only: sum.case option.case) blast
        qed
      qed
      show ?thesis
        apply (rule exI [of _ r], rule exI [of _ w'])
        apply (rule exI [of _ "l # ls"], rule exI [of _ "Suc k"])
        apply (intro conjI)
              apply (rule run)
             apply (simp add: ih(2) step(5))
            apply (simp add: ih(3) step(2))
           apply (simp add: ih(4))
          apply (simp add: outs ih(5))
         apply (simp add: ih(6) step(6) rf)
        apply (rule tail)
        done
    qed
  qed
qed

lemma for_migrations_append:
  "for_migrations env pre w = (Inr None, w1) \<Longrightarrow>
   for_migrations env (pre @ rest) w = for_migrations env rest w1"
proof (induction pre arbitrary: w)
  case Nil
  then show ?case by simp
next
  case (Cons m pre)
  obtain r w2 where step: "run_migration env m w = (r, w2)"
    by (cases "run_migration env m w")
  show ?case
  proof (cases r)
    case (Inl e)
    then show ?thesis using Cons.prems step by simp
  next
    case (Inr b)
    show ?thesis
    proof (cases b)
      case True
      then show ?thesis using Cons.prems Cons.IH [of w2] step Inr by simp
    next
      case False
      then show ?thesis using Cons.prems step Inr by simp
    qed
  qed
qed

lemma for_migrations_completed:
  assumes "for_migrations env pre w = (Inr None, w1)"
  shows "\<exists>ls. stdout w1 = stdout w @ ls \<and> map fst (outcomes ls) = pre \<and> files w1 = files w"
proof -
  from for_migrations_run [of env pre w] obtain r w' ls k where loop:
    "for_migrations env pre w = (r, w')" "files w' = files w"
    "stdout w' = stdout w @ ls"
    "map fst (outcomes ls) = take k pre"
    "(case r of
        Inr None \<Rightarrow> k = length pre \<and> (\<forall>x\<in>set (outcomes ls). \<not> is_failed (snd x))
      | Inr (Some c) \<Rightarrow> c = 1 \<and> (\<exists>pre f reason. outcomes ls = pre @ [(f, Failed reason)]
            \<and> (\<forall>x\<in>set pre. \<not> is_failed (snd x)))
      | Inl e \<Rightarrow> k < length pre \<and> (\<forall>x\<in>set (outcomes ls). \<not> is_failed (snd x))
            \<and> exists (joinpath (migrations_dir env) (pre ! k)) w = Inl e)"
    by blast
  from assms loop(1) have "r = Inr None" "w' = w1" by simp_all
  then show ?thesis using loop by auto
qed

text \<open>
  The same for the whole script. When \<open>main\<close> returns, the exit code is what it returns;
  when the exception of an existence test leaves \<open>main\<close>, the exit code is 1.
\<close>

lemma script_run:
  "\<exists>code w' k. script env ms w = (code, w') \<and> snd (main env ms w) = w'
     \<and> files w' = files w \<and> k \<le> length ms
     \<and> map fst (run_outcomes env ms w) = take k ms
     \<and> rpc_calls w' = rpc_calls w @ concat (map (request_for env w) (take k ms))
     \<and> (case fst (main env ms w) of
          Inr c \<Rightarrow> code = c \<and>
            (if c = 0
             then k = length ms \<and> (\<forall>x\<in>set (run_outcomes env ms w). \<not> is_failed (snd x))
             else c = 1 \<and> (\<exists>pre f reason. run_outcomes env ms w = pre @ [(f, Failed reason)]
                  \<and> (\<forall>x\<in>set pre. \<not> is_failed (snd x))))
        | Inl e \<Rightarrow> code = 1 \<and> k < length ms
            \<and> (\<forall>x\<in>set (run_outcomes env ms w). \<not> is_failed (snd x))
            \<and> exists (joinpath (migrations_dir env) (ms ! k)) w = Inl e)"
proof -
  let ?h = "header ms w"
  have hfiles: "files ?h = files w" and hcalls: "rpc_calls ?h = rpc_calls w"
    and hout: "stdout ?h = stdout w @ [Banner, Project, Total (length ms)]"
    by (simp_all add: header_def print_def)
  have hreq: "request_for env ?h = request_for env w"
    by (rule request_for_files [OF hfiles])
  have hex: "exists p ?h = exists p w" for p
    by (rule exists_files [OF hfiles])
  from for_migrations_run [of env ms ?h] obtain r w1 ls k where loop:
    "for_migrations env ms ?h = (r, w1)" "files w1 = files ?h"
    "stdout w1 = stdout ?h @ ls" "k \<le> length ms"
    "map fst (outcomes ls) = take k ms"
    "rpc_calls w1 = rpc_calls ?h @ concat (map (request_for env ?h) (take k ms))"
    "(case r of
        Inr None \<Rightarrow> k = length ms \<and> (\<forall>x\<in>set (outcomes ls). \<not> is_failed (snd x))
      | Inr (Some c) \<Rightarrow> c = 1 \<and> (\<exists>pre f reason. outcomes ls = pre @ [(f, Failed reason)]
            \<and> (\<forall>x\<in>set pre. \<not> is_failed (snd x)))
      | Inl e \<Rightarrow> k < length ms \<and> (\<forall>x\<in>set (outcomes ls). \<not> is_failed (snd x))
            \<and> exists (joinpath (migrations_dir env) (ms ! k)) ?h = Inl e)"
    by blast
  have early: "run_outcomes env ms w = outcomes ls" if s: "script env ms w = (c, w1)" for c
  proof -
    have "stdout w1 = stdout w @ ([Banner, Project, Total (length ms)] @ ls)"
      by (simp add: loop(3) hout)
    then have "printed w w1 = [Banner, Project, Total (length ms)] @ ls"
      by (rule printed_append)
    then show ?thesis
      by (simp add: run_outcomes_def s outcomes_Cons)
  qed
  show ?thesis
  proof (cases r)
    case (Inl e)
    have m: "main env ms w = (Inl e, w1)"
      using loop(1) Inl by (simp add: main_def)
    have s: "script env ms w = (1, w1)"
      using m by (simp add: script_def)
    note ro = early [OF s]
    show ?thesis
      apply (rule exI [of _ 1], rule exI [of _ w1], rule exI [of _ k])
      apply (simp only: s m ro)
      using loop Inl apply (simp add: hfiles hcalls hreq hex)
      done
  next
    case (Inr c)
    show ?thesis
    proof (cases c)
      case None
      have m: "main env ms w = (Inr 0, footer w1)"
        using loop(1) Inr None by (simp add: main_def)
      have s: "script env ms w = (0, footer w1)"
        using m by (simp add: script_def)
      have "stdout (footer w1) = stdout w @ ([Banner, Project, Total (length ms)] @ ls
               @ [AllCompleted, NextSteps, Step1, Step2, Step3])"
        by (simp add: footer_def print_def loop(3) hout)
      then have "printed w (footer w1) = [Banner, Project, Total (length ms)] @ ls
               @ [AllCompleted, NextSteps, Step1, Step2, Step3]"
        by (rule printed_append)
      then have ro: "run_outcomes env ms w = outcomes ls"
        by (simp add: run_outcomes_def s outcomes_append outcomes_Cons outcomes_Nil)
      show ?thesis
        apply (rule exI [of _ 0], rule exI [of _ "footer w1"], rule exI [of _ k])
        apply (simp only: s m ro)
        using loop Inr None apply (simp add: footer_def print_def hfiles hcalls hreq)
        done
    next
      case (Some n)
      then have n: "n = 1" using loop(7) Inr by simp
      have m: "main env ms w = (Inr 1, w1)"
        using loop(1) Inr Some n by (simp add: main_def)
      have s: "script env ms w = (1, w1)"
        using m by (simp add: script_def)
      note ro = early [OF s]
      show ?thesis
        apply (rule exI [of _ 1], rule exI [of _ w1], rule exI [of _ k])
        apply (simp only: s m ro)
        using loop Inr Some apply (simp add: hfiles hcalls hreq)
        done
    qed
  qed
qed

text \<open>
  The three ways a run of the script can end: \<open>main\<close> returns 0 after the whole list,
  \<open>main\<close> returns 1 after an outcome Failed, or the exception of an existence test
  leaves \<open>main\<close> and the interpreter exits with 1.
\<close>

lemma script_cases:
  obtains
    (completed) w' where
      "main env ms w = (Inr 0, w')" "script env ms w = (0, w')"
      "map fst (run_outcomes env ms w) = ms"
      "\<forall>x\<in>set (run_outcomes env ms w). \<not> is_failed (snd x)"
  | (stopped) w' pre g reason where
      "main env ms w = (Inr 1, w')" "script env ms w = (1, w')"
      "run_outcomes env ms w = pre @ [(g, Failed reason)]"
      "\<forall>x\<in>set pre. \<not> is_failed (snd x)"
  | (escaped) w' e k where
      "main env ms w = (Inl e, w')" "script env ms w = (1, w')"
      "k < length ms" "map fst (run_outcomes env ms w) = take k ms"
      "\<forall>x\<in>set (run_outcomes env ms w). \<not> is_failed (snd x)"
      "exists (joinpath (migrations_dir env) (ms ! k)) w = Inl e"
proof -
  from script_run [of env ms w] obtain code w' k where run:
    "script env ms w = (code, w')" "snd (main env ms w) = w'"
    "map fst (run_outcomes env ms w) = take k ms"
    "case fst (main env ms w) of
          Inr c \<Rightarrow> code = c \<and>
            (if c = 0
             then k = length ms \<and> (\<forall>x\<in>set (run_outcomes env ms w). \<not> is_failed (snd x))
             else c = 1 \<and> (\<exists>pre f reason. run_outcomes env ms w = pre @ [(f, Failed reason)]
                  \<and> (\<forall>x\<in>set pre. \<not> is_failed (snd x))))
        | Inl e \<Rightarrow> code = 1 \<and> k < length ms
            \<and> (\<forall>x\<in>set (run_outcomes env ms w). \<not> is_failed (snd x))
            \<and> exists (joinpath (migrations_dir env) (ms ! k)) w = Inl e"
    by blast
  obtain r where r: "fst (main env ms w) = r" by simp
  then have m: "main env ms w = (r, w')"
    using run(2) by (cases "main env ms w") simp
  show ?thesis
  proof (cases r)
    case (Inl e)
    then show ?thesis using escaped [of e w' k] run m r by simp
  next
    case (Inr c)
    show ?thesis
    proof (cases "c = 0")
      case True
      then show ?thesis using completed [of w'] run m r Inr by simp
    next
      case False
      then obtain pre g reason where "c = 1" "run_outcomes env ms w = pre @ [(g, Failed reason)]"
        "\<forall>x\<in>set pre. \<not> is_failed (snd x)"
        using run(4) r Inr by auto
      moreover have "code = c" using run(4) r Inr by simp
      ultimately show ?thesis using stopped [of w' pre g reason] run(1) m r Inr by simp
    qed
  qed
qed

subsection \<open>Running the small world\<close>

lemmas demo_defs = demo_env_def demo_files_def demo_world_def migrations_dir_def joinpath_def
  parent_def run_migration_def try_block_def open_read_def rpc_execute_def exists_def print_def
  header_def footer_def main_def script_def

lemma demo_pass:
  "script demo_env [''a.sql'', ''m.sql'', ''c.sql''] demo_world =
     (0, \<lparr>files = demo_files, remote = 2,
          rpc_calls = [(''exec_sql'', [(''query'', ''create a'')]), (''exec_sql'', [(''query'', ''create c'')])],
          stdout = [Banner, Project, Total 3, Done ''a.sql'', Skipping ''m.sql'', Done ''c.sql'',
                    AllCompleted, NextSteps, Step1, Step2, Step3]\<rparr>)"
  by (simp add: demo_defs)

lemma demo_fail:
  "script demo_env [''a.sql'', ''b.sql'', ''c.sql''] demo_world =
     (1, \<lparr>files = demo_files, remote = 1,
          rpc_calls = [(''exec_sql'', [(''query'', ''create a'')]), (''exec_sql'', [(''query'', ''bad sql'')])],
          stdout = [Banner, Project, Total 3, Done ''a.sql'', Error ''b.sql'' ''syntax error'',
                    MigrationFailed ''b.sql'', Stopping]\<rparr>)"
  by (simp add: demo_defs)

lemma demo_pass_outcomes:
  "run_outcomes demo_env [''a.sql'', ''m.sql'', ''c.sql''] demo_world =
     [(''a.sql'', Applied), (''m.sql'', SkippedMissing), (''c.sql'', Applied)]"
  by (simp add: run_outcomes_def demo_pass printed_def outcomes_Cons outcomes_Nil)
     (simp add: demo_world_def outcomes_Cons outcomes_Nil)

lemma demo_fail_outcomes:
  "run_outcomes demo_env [''a.sql'', ''b.sql'', ''c.sql''] demo_world =
     [(''a.sql'', Applied), (''b.sql'', Failed ''syntax error'')]"
  by (simp add: run_outcomes_def demo_fail printed_def outcomes_Cons outcomes_Nil)
     (simp add: demo_world_def outcomes_Cons outcomes_Nil)

lemma demo_after_a:
  "for_migrations demo_env [''a.sql''] (header [''a.sql'', x, y] demo_world) =
     (Inr None, \<lparr>files = demo_files, remote = Suc 0,
        rpc_calls = [(''exec_sql'', [(''query'', ''create a'')])],
        stdout = [Banner, Project, Total 3, Done ''a.sql'']\<rparr>)"
  by (simp add: demo_defs)




section \<open>The claims\<close>



text \<open>
  C2. When the run reaches a file of the list (everything before it has succeeded) and
  the remote call for that file raises, the run stops there: the script exits with 1 in
  exactly the world that the failed call left, plus the three lines of the failure; the
  migrations that were run are the entries up to and including the failing one; and the
  loop over the whole list does what the loop over the list cut after the failing entry
  does, so no later filename is touched.
\<close>

theorem remote_error_stops_run:
  assumes reach: "for_migrations env pre (header (pre @ f # post) w) = (Inr None, w1)"
    and isfile: "files w1 (joinpath (migrations_dir env) f) = Regular sql"
    and raises: "execute env (''exec_sql'', [(''query'', sql)]) (remote w1) = (Inl (Exception msg), d)"
  shows "script env (pre @ f # post) w =
           (1, print Stopping (print (MigrationFailed f) (print (Error f msg)
                 (w1\<lparr>remote := d,
                     rpc_calls := rpc_calls w1 @ [(''exec_sql'', [(''query'', sql)])]\<rparr>))))
         \<and> map fst (run_outcomes env (pre @ f # post) w) = pre @ [f]
         \<and> for_migrations env (pre @ f # post) (header (pre @ f # post) w)
             = for_migrations env (pre @ [f]) (header (pre @ f # post) w)"
proof -
  let ?ms = "pre @ f # post"
  let ?w2 = "w1\<lparr>remote := d, rpc_calls := rpc_calls w1 @ [(''exec_sql'', [(''query'', sql)])]\<rparr>"
  let ?w3 = "print Stopping (print (MigrationFailed f) (print (Error f msg) ?w2))"
  have one: "run_migration env f w1 = (Inr False, print (Error f msg) ?w2)"
    by (rule run_migration_raised [OF isfile raises])
  have stop: "for_migrations env (f # rest) w1 = (Inr (Some 1), ?w3)" for rest
    using one by simp
  have loop: "for_migrations env ?ms (header ?ms w) = (Inr (Some 1), ?w3)"
    using for_migrations_append [OF reach, of "f # post"] stop by simp
  have cut: "for_migrations env (pre @ [f]) (header ?ms w) = (Inr (Some 1), ?w3)"
    using for_migrations_append [OF reach, of "[f]"] stop by simp
  have s: "script env ?ms w = (1, ?w3)"
    using loop by (simp add: script_def main_def)
  from for_migrations_completed [OF reach] obtain ls where ls:
    "stdout w1 = stdout (header ?ms w) @ ls" "map fst (outcomes ls) = pre"
    by blast
  have "stdout ?w3 = stdout w @ ([Banner, Project, Total (length ?ms)] @ ls
          @ [Error f msg, MigrationFailed f, Stopping])"
    by (simp add: print_def ls(1) header_stdout)
  then have "printed w ?w3 = [Banner, Project, Total (length ?ms)] @ ls
          @ [Error f msg, MigrationFailed f, Stopping]"
    by (rule printed_append)
  then have "run_outcomes env ?ms w = outcomes ls @ [(f, Failed msg)]"
    by (simp add: run_outcomes_def s outcomes_append outcomes_Cons outcomes_Nil)
  then have "map fst (run_outcomes env ?ms w) = pre @ [f]"
    by (simp add: ls(2))
  then show ?thesis using s loop cut by simp
qed

text \<open>The second scenario of the specification: \<open>c.sql\<close> is never attempted.\<close>

theorem remote_error_stops_run_witness:
  "for_migrations demo_env [''a.sql''] (header ([''a.sql''] @ ''b.sql'' # [''c.sql'']) demo_world) =
     (Inr None, \<lparr>files = demo_files, remote = Suc 0,
        rpc_calls = [(''exec_sql'', [(''query'', ''create a'')])],
        stdout = [Banner, Project, Total 3, Done ''a.sql'']\<rparr>)
   \<and> demo_files (joinpath (migrations_dir demo_env) ''b.sql'') = Regular ''bad sql''
   \<and> execute demo_env (''exec_sql'', [(''query'', ''bad sql'')]) (Suc 0)
        = (Inl (Exception ''syntax error''), Suc 0)
   \<and> script demo_env ([''a.sql''] @ ''b.sql'' # [''c.sql'']) demo_world =
        (1, \<lparr>files = demo_files, remote = Suc 0,
           rpc_calls = [(''exec_sql'', [(''query'', ''create a'')]),
                        (''exec_sql'', [(''query'', ''bad sql'')])],
           stdout = [Banner, Project, Total 3, Done ''a.sql'', Error ''b.sql'' ''syntax error'',
                     MigrationFailed ''b.sql'', Stopping]\<rparr>)
   \<and> map fst (run_outcomes demo_env ([''a.sql''] @ ''b.sql'' # [''c.sql'']) demo_world)
        = [''a.sql''] @ [''b.sql'']"
proof -
  let ?w1 = "\<lparr>files = demo_files, remote = Suc 0,
        rpc_calls = [(''exec_sql'', [(''query'', ''create a'')])],
        stdout = [Banner, Project, Total 3, Done ''a.sql'']\<rparr>"
  have h1: "for_migrations demo_env [''a.sql'']
      (header ([''a.sql''] @ ''b.sql'' # [''c.sql'']) demo_world) = (Inr None, ?w1)"
    using demo_after_a [of "''b.sql''" "''c.sql''"] by simp
  have h2: "files ?w1 (joinpath (migrations_dir demo_env) ''b.sql'') = Regular ''bad sql''"
    by (simp add: demo_defs)
  have h3: "execute demo_env (''exec_sql'', [(''query'', ''bad sql'')]) (remote ?w1)
        = (Inl (Exception ''syntax error''), Suc 0)"
    by (simp add: demo_defs)
  show ?thesis
    using remote_error_stops_run [OF h1 h2 h3] h1 h2 h3
    by (simp add: print_def)
qed

text \<open>
  C3. A file whose resolved path does not exist gives SkippedMissing: \<open>run_migration\<close>
  prints the skip line, makes no remote call and returns success, and the loop goes on
  with the next filename. In a run where everything before and everything after the
  missing file succeeds, the script exits with 0.
\<close>

theorem missing_file_is_skipped:
  assumes absent: "files w1 (joinpath (migrations_dir env) f) = Absent"
  shows "run_migration env f w1 = (Inr True, print (Skipping f) w1)
     \<and> outcomes (printed w1 (snd (run_migration env f w1))) = [(f, SkippedMissing)]
     \<and> rpc_calls (snd (run_migration env f w1)) = rpc_calls w1
     \<and> remote (snd (run_migration env f w1)) = remote w1
     \<and> for_migrations env (f # post) w1 = for_migrations env post (print (Skipping f) w1)
     \<and> (for_migrations env pre (header (pre @ f # post) w) = (Inr None, w1)
          \<and> for_migrations env post (print (Skipping f) w1) = (Inr None, w2)
        \<longrightarrow> script env (pre @ f # post) w = (0, footer w2))"
proof -
  have one: "run_migration env f w1 = (Inr True, print (Skipping f) w1)"
    by (rule run_migration_absent [OF absent])
  have next_one: "for_migrations env (f # post) w1 = for_migrations env post (print (Skipping f) w1)"
    using one by simp
  have whole: "script env (pre @ f # post) w = (0, footer w2)"
    if reach: "for_migrations env pre (header (pre @ f # post) w) = (Inr None, w1)"
      and rest: "for_migrations env post (print (Skipping f) w1) = (Inr None, w2)"
  proof -
    have "for_migrations env (pre @ f # post) (header (pre @ f # post) w) = (Inr None, w2)"
      using for_migrations_append [OF reach, of "f # post"] next_one rest by simp
    then show ?thesis by (simp add: script_def main_def)
  qed
  show ?thesis
    using one next_one whole
    by (simp add: printed_print outcomes_single) (simp add: print_def)
qed

text \<open>The first scenario of the specification, with the missing file in the middle.\<close>

theorem missing_file_is_skipped_witness:
  "demo_files (joinpath (migrations_dir demo_env) ''m.sql'') = Absent
   \<and> for_migrations demo_env [''a.sql''] (header ([''a.sql''] @ ''m.sql'' # [''c.sql'']) demo_world) =
       (Inr None, \<lparr>files = demo_files, remote = Suc 0,
          rpc_calls = [(''exec_sql'', [(''query'', ''create a'')])],
          stdout = [Banner, Project, Total 3, Done ''a.sql'']\<rparr>)
   \<and> for_migrations demo_env [''c.sql'']
        (print (Skipping ''m.sql'') \<lparr>files = demo_files, remote = Suc 0,
          rpc_calls = [(''exec_sql'', [(''query'', ''create a'')])],
          stdout = [Banner, Project, Total 3, Done ''a.sql'']\<rparr>) =
       (Inr None, \<lparr>files = demo_files, remote = Suc (Suc 0),
          rpc_calls = [(''exec_sql'', [(''query'', ''create a'')]),
                       (''exec_sql'', [(''query'', ''create c'')])],
          stdout = [Banner, Project, Total 3, Done ''a.sql'', Skipping ''m.sql'',
                    Done ''c.sql'']\<rparr>)
   \<and> script demo_env ([''a.sql''] @ ''m.sql'' # [''c.sql'']) demo_world =
       (0, \<lparr>files = demo_files, remote = Suc (Suc 0),
          rpc_calls = [(''exec_sql'', [(''query'', ''create a'')]),
                       (''exec_sql'', [(''query'', ''create c'')])],
          stdout = [Banner, Project, Total 3, Done ''a.sql'', Skipping ''m.sql'',
                    Done ''c.sql'', AllCompleted, NextSteps, Step1, Step2, Step3]\<rparr>)"
proof -
  let ?w1 = "\<lparr>files = demo_files, remote = Suc 0,
          rpc_calls = [(''exec_sql'', [(''query'', ''create a'')])],
          stdout = [Banner, Project, Total 3, Done ''a.sql'']\<rparr>"
  let ?w2 = "\<lparr>files = demo_files, remote = Suc (Suc 0),
          rpc_calls = [(''exec_sql'', [(''query'', ''create a'')]),
                       (''exec_sql'', [(''query'', ''create c'')])],
          stdout = [Banner, Project, Total 3, Done ''a.sql'', Skipping ''m.sql'',
                    Done ''c.sql'']\<rparr>"
  have h0: "files ?w1 (joinpath (migrations_dir demo_env) ''m.sql'') = Absent"
    by (simp add: demo_defs)
  have h1: "for_migrations demo_env [''a.sql'']
      (header ([''a.sql''] @ ''m.sql'' # [''c.sql'']) demo_world) = (Inr None, ?w1)"
    using demo_after_a [of "''m.sql''" "''c.sql''"] by simp
  have h2: "for_migrations demo_env [''c.sql''] (print (Skipping ''m.sql'') ?w1) = (Inr None, ?w2)"
    by (simp add: demo_defs)
  show ?thesis
    using missing_file_is_skipped [OF h0, of "[''c.sql'']" "[''a.sql'']" demo_world ?w2] h0 h1 h2
    by (simp add: footer_def print_def)
qed

text \<open>
  C4. When the file can be read and the remote call raises an exception, the exception
  leaves the \<open>try\<close> block, is caught by the handler and becomes the outcome Failed with
  the stringified error as its reason: \<open>run_migration\<close> prints the error line and
  returns failure, so this error does not leave the function.
\<close>

theorem remote_exception_is_caught:
  "files w (joinpath (migrations_dir env) f) = Regular sql
     \<and> execute env (''exec_sql'', [(''query'', sql)]) (remote w) = (Inl (Exception msg), d)
   \<longrightarrow> try_block env (joinpath (migrations_dir env) f) f w =
         (Inl (Exception msg),
          w\<lparr>remote := d, rpc_calls := rpc_calls w @ [(''exec_sql'', [(''query'', sql)])]\<rparr>)
       \<and> run_migration env f w =
         (Inr False, print (Error f msg)
            (w\<lparr>remote := d, rpc_calls := rpc_calls w @ [(''exec_sql'', [(''query'', sql)])]\<rparr>))
       \<and> outcomes (printed w (snd (run_migration env f w))) = [(f, Failed msg)]"
proof -
  have caught: "outcomes (printed w (snd (run_migration env f w))) = [(f, Failed msg)]"
    if isfile: "files w (joinpath (migrations_dir env) f) = Regular sql"
      and raises: "execute env (''exec_sql'', [(''query'', sql)]) (remote w) = (Inl (Exception msg), d)"
  proof -
    let ?w1 = "w\<lparr>remote := d, rpc_calls := rpc_calls w @ [(''exec_sql'', [(''query'', sql)])]\<rparr>"
    have "stdout (print (Error f msg) ?w1) = stdout w @ [Error f msg]"
      by (simp add: print_def)
    then have "printed w (print (Error f msg) ?w1) = [Error f msg]"
      by (rule printed_append)
    then show ?thesis
      by (simp add: run_migration_raised [OF isfile raises] outcomes_single)
  qed
  show ?thesis
    using caught by (auto simp: try_block_raised run_migration_raised)
qed

theorem remote_exception_is_caught_witness:
  "files demo_world (joinpath (migrations_dir demo_env) ''b.sql'') = Regular ''bad sql''
   \<and> execute demo_env (''exec_sql'', [(''query'', ''bad sql'')]) (remote demo_world)
       = (Inl (Exception ''syntax error''), 0)
   \<and> run_migration demo_env ''b.sql'' demo_world =
       (Inr False, print (Error ''b.sql'' ''syntax error'')
          (demo_world\<lparr>remote := 0,
             rpc_calls := rpc_calls demo_world @ [(''exec_sql'', [(''query'', ''bad sql'')])]\<rparr>))
   \<and> outcomes (printed demo_world (snd (run_migration demo_env ''b.sql'' demo_world)))
       = [(''b.sql'', Failed ''syntax error'')]"
proof -
  have h1: "files demo_world (joinpath (migrations_dir demo_env) ''b.sql'') = Regular ''bad sql''"
    by (simp add: demo_defs)
  have h2: "execute demo_env (''exec_sql'', [(''query'', ''bad sql'')]) (remote demo_world)
       = (Inl (Exception ''syntax error''), 0)"
    by (simp add: demo_defs)
  show ?thesis
    using remote_exception_is_caught [of demo_world demo_env "''b.sql''" "''bad sql''"
        "''syntax error''" 0] h1 h2
    by blast
qed

text \<open>
  C5. The migrations that a run executes are a prefix of the list: the entries are taken
  in list order, one call of \<open>run_migration\<close> for each. When nothing fails, that is no
  outcome is Failed and no existence test of an entry raises, the prefix is the whole
  list, so every entry is processed exactly once, in order, and the script exits with 0.
  A file that can be read and whose remote call returns gives Applied, and the loop goes
  on with the next filename.
\<close>

theorem entries_run_in_list_order:
  "(\<exists>k\<le>length ms. map fst (run_outcomes env ms w) = take k ms)
   \<and> ((\<forall>x\<in>set (run_outcomes env ms w). \<not> is_failed (snd x))
        \<and> (\<forall>m\<in>set ms. \<forall>e. exists (joinpath (migrations_dir env) m) w \<noteq> Inl e)
        \<longrightarrow> map fst (run_outcomes env ms w) = ms \<and> fst (script env ms w) = 0)
   \<and> (files w1 (joinpath (migrations_dir env) f) = Regular sql
        \<and> execute env (''exec_sql'', [(''query'', sql)]) (remote w1) = (Inr u, d)
      \<longrightarrow> run_migration env f w1 =
            (Inr True, print (Done f)
               (w1\<lparr>remote := d, rpc_calls := rpc_calls w1 @ [(''exec_sql'', [(''query'', sql)])]\<rparr>))
          \<and> outcomes (printed w1 (snd (run_migration env f w1))) = [(f, Applied)]
          \<and> for_migrations env (f # rest) w1 =
              for_migrations env rest (print (Done f)
                (w1\<lparr>remote := d, rpc_calls := rpc_calls w1 @ [(''exec_sql'', [(''query'', sql)])]\<rparr>)))"
proof -
  from script_run [of env ms w] obtain k where run:
    "k \<le> length ms" "map fst (run_outcomes env ms w) = take k ms"
    by blast
  then have prefix: "\<exists>k\<le>length ms. map fst (run_outcomes env ms w) = take k ms"
    by blast
  have all_ok: "map fst (run_outcomes env ms w) = ms \<and> fst (script env ms w) = 0"
    if nofail: "\<forall>x\<in>set (run_outcomes env ms w). \<not> is_failed (snd x)"
      and noraise: "\<forall>m\<in>set ms. \<forall>e. exists (joinpath (migrations_dir env) m) w \<noteq> Inl e"
  proof (cases rule: script_cases [of env ms w])
    case (completed w2)
    then show ?thesis by simp
  next
    case (stopped w2 pre g reason)
    then have "is_failed (snd (g, Failed reason))"
      "(g, Failed reason) \<in> set (run_outcomes env ms w)"
      by (simp_all add: is_failed_def)
    then show ?thesis using nofail by blast
  next
    case (escaped w2 e j)
    have "ms ! j \<in> set ms" using escaped(3) by simp
    then show ?thesis using noraise escaped(6) by blast
  qed
  have applied: "run_migration env f w1 =
            (Inr True, print (Done f)
               (w1\<lparr>remote := d, rpc_calls := rpc_calls w1 @ [(''exec_sql'', [(''query'', sql)])]\<rparr>))
          \<and> outcomes (printed w1 (snd (run_migration env f w1))) = [(f, Applied)]
          \<and> for_migrations env (f # rest) w1 =
              for_migrations env rest (print (Done f)
                (w1\<lparr>remote := d, rpc_calls := rpc_calls w1 @ [(''exec_sql'', [(''query'', sql)])]\<rparr>))"
    if isfile: "files w1 (joinpath (migrations_dir env) f) = Regular sql"
      and returns: "execute env (''exec_sql'', [(''query'', sql)]) (remote w1) = (Inr u, d)"
  proof -
    let ?w2 = "w1\<lparr>remote := d, rpc_calls := rpc_calls w1 @ [(''exec_sql'', [(''query'', sql)])]\<rparr>"
    have one: "run_migration env f w1 = (Inr True, print (Done f) ?w2)"
      by (rule run_migration_applied [OF isfile returns])
    have "stdout (print (Done f) ?w2) = stdout w1 @ [Done f]"
      by (simp add: print_def)
    then have "printed w1 (print (Done f) ?w2) = [Done f]"
      by (rule printed_append)
    then show ?thesis using one by (simp add: outcomes_single)
  qed
  show ?thesis using prefix all_ok applied by blast
qed

theorem entries_run_in_list_order_witness:
  "map fst (run_outcomes demo_env [''a.sql'', ''m.sql'', ''c.sql''] demo_world)
       = [''a.sql'', ''m.sql'', ''c.sql'']
   \<and> fst (script demo_env [''a.sql'', ''m.sql'', ''c.sql''] demo_world) = 0
   \<and> files demo_world (joinpath (migrations_dir demo_env) ''a.sql'') = Regular ''create a''
   \<and> execute demo_env (''exec_sql'', [(''query'', ''create a'')]) (remote demo_world)
       = (Inr (), Suc 0)
   \<and> run_migration demo_env ''a.sql'' demo_world =
       (Inr True, print (Done ''a.sql'')
          (demo_world\<lparr>remote := Suc 0,
             rpc_calls := rpc_calls demo_world @ [(''exec_sql'', [(''query'', ''create a'')])]\<rparr>))
   \<and> outcomes (printed demo_world (snd (run_migration demo_env ''a.sql'' demo_world)))
       = [(''a.sql'', Applied)]"
proof -
  have h0: "\<forall>x\<in>set (run_outcomes demo_env [''a.sql'', ''m.sql'', ''c.sql''] demo_world).
      \<not> is_failed (snd x)"
    by (simp add: demo_pass_outcomes is_failed_def)
  have h0b: "\<forall>m\<in>set [''a.sql'', ''m.sql'', ''c.sql''].
      \<forall>e. exists (joinpath (migrations_dir demo_env) m) demo_world \<noteq> Inl e"
    by (simp add: demo_defs)
  have h1: "files demo_world (joinpath (migrations_dir demo_env) ''a.sql'') = Regular ''create a''"
    by (simp add: demo_defs)
  have h2: "execute demo_env (''exec_sql'', [(''query'', ''create a'')]) (remote demo_world)
       = (Inr (), Suc 0)"
    by (simp add: demo_defs)
  note t = entries_run_in_list_order [of "[''a.sql'', ''m.sql'', ''c.sql'']" demo_env demo_world
        demo_world "''a.sql''" "''create a''" "()" "Suc 0"]
  note q = t [THEN conjunct2, THEN conjunct1, THEN mp, OF conjI [OF h0 h0b]]
  note r = t [THEN conjunct2, THEN conjunct2, THEN mp, OF conjI [OF h1 h2]]
  show ?thesis
    by (intro conjI)
       (rule q [THEN conjunct1] q [THEN conjunct2] h1 h2 r [THEN conjunct1]
          r [THEN conjunct2, THEN conjunct1])+
qed

text \<open>
  C6. When the file exists and can be read, \<open>run_migration\<close> makes exactly one remote
  call: the function \<open>exec_sql\<close> with the single parameter \<open>query\<close>, whose value is the
  whole text of the file as it was read. Neither the filename nor the text is looked at:
  the statement holds for every filename and every text. The remote side moves to the
  state that this one call leaves.
\<close>

theorem full_text_is_submitted:
  assumes isfile: "files w (joinpath (migrations_dir env) f) = Regular sql"
  shows "rpc_calls (snd (run_migration env f w))
           = rpc_calls w @ [(''exec_sql'', [(''query'', sql)])]
     \<and> remote (snd (run_migration env f w))
           = snd (execute env (''exec_sql'', [(''query'', sql)]) (remote w))"
proof -
  obtain r d where ex: "execute env (''exec_sql'', [(''query'', sql)]) (remote w) = (r, d)"
    by (cases "execute env (''exec_sql'', [(''query'', sql)]) (remote w)")
  show ?thesis
  proof (cases r)
    case (Inl e)
    obtain msg where "e = Exception msg" by (cases e)
    then show ?thesis
      using run_migration_raised [OF isfile, of msg d] ex Inl by (simp add: print_def)
  next
    case (Inr u)
    then show ?thesis
      using run_migration_applied [OF isfile, of u d] ex by (simp add: print_def)
  qed
qed

theorem full_text_is_submitted_witness:
  "demo_files (joinpath (migrations_dir demo_env) ''a.sql'') = Regular ''create a''
   \<and> rpc_calls (snd (run_migration demo_env ''a.sql'' demo_world))
       = [(''exec_sql'', [(''query'', ''create a'')])]
   \<and> remote (snd (run_migration demo_env ''a.sql'' demo_world)) = Suc 0"
proof -
  have h: "files demo_world (joinpath (migrations_dir demo_env) ''a.sql'') = Regular ''create a''"
    by (simp add: demo_defs)
  show ?thesis
    using full_text_is_submitted [OF h] h
    by (simp add: demo_env_def demo_world_def)
qed

text \<open>
  C7. With an empty list the script prints the header with a total of zero migrations and
  the closing lines, runs no migration, makes no remote call, leaves the remote side as
  it was and exits with code 0.
\<close>

theorem empty_list_exits_zero:
  "script env [] w = (0, footer (header [] w))
   \<and> printed w (snd (script env [] w))
       = [Banner, Project, Total 0, AllCompleted, NextSteps, Step1, Step2, Step3]
   \<and> run_outcomes env [] w = []
   \<and> rpc_calls (snd (script env [] w)) = rpc_calls w
   \<and> remote (snd (script env [] w)) = remote w"
  by (simp add: script_def main_def run_outcomes_def printed_def header_def footer_def
      print_def outcomes_Cons outcomes_Nil)

text \<open>
  C8. Nothing is retried. One call of \<open>run_migration\<close> makes the remote call for its file
  at most once: none when the file is missing, when its existence test raises or when
  it cannot be read, one otherwise. The
  remote calls of a whole run are exactly those of the entries it processed, taken once
  each in list order, and an entry whose outcome is Failed is the last one processed, so
  a failed call is never submitted again.
\<close>

theorem no_retry:
  "rpc_calls (snd (run_migration env f w)) = rpc_calls w @ request_for env w f
   \<and> length (request_for env w f) \<le> 1
   \<and> (\<exists>k\<le>length ms.
        map fst (run_outcomes env ms w) = take k ms
        \<and> rpc_calls (snd (script env ms w))
            = rpc_calls w @ concat (map (request_for env w) (take k ms))
        \<and> (\<forall>i<k. is_failed (snd (run_outcomes env ms w ! i)) \<longrightarrow> Suc i = k))"
proof -
  from script_run [of env ms w] obtain code w' k where run:
    "script env ms w = (code, w')" "k \<le> length ms"
    "map fst (run_outcomes env ms w) = take k ms"
    "rpc_calls w' = rpc_calls w @ concat (map (request_for env w) (take k ms))"
    by blast
  have "length (map fst (run_outcomes env ms w)) = length (take k ms)"
    by (simp only: run(3))
  then have len: "length (run_outcomes env ms w) = k"
    using run(2) by simp
  have last_one: "Suc i = k" if i: "i < k" and bad: "is_failed (snd (run_outcomes env ms w ! i))" for i
  proof -
    have member: "run_outcomes env ms w ! i \<in> set (run_outcomes env ms w)"
      using i len by simp
    have none_failed: False if "\<forall>x\<in>set (run_outcomes env ms w). \<not> is_failed (snd x)"
      using that member bad by blast
    show ?thesis
    proof (cases rule: script_cases [of env ms w])
      case (completed w2)
      then show ?thesis using none_failed by blast
    next
      case (escaped w2 e j)
      then show ?thesis using none_failed by blast
    next
      case (stopped w2 pre g reason)
      have k: "k = Suc (length pre)" using len stopped(3) by simp
      show ?thesis
      proof (cases "i < length pre")
        case True
        then have "run_outcomes env ms w ! i = pre ! i" "pre ! i \<in> set pre"
          by (simp_all add: stopped(3) nth_append)
        then show ?thesis using bad stopped(4) by simp
      next
        case False
        then show ?thesis using i k by simp
      qed
    qed
  qed
  have third: "\<forall>i<k. is_failed (snd (run_outcomes env ms w ! i)) \<longrightarrow> Suc i = k"
    using last_one by blast
  have second: "rpc_calls (snd (script env ms w))
            = rpc_calls w @ concat (map (request_for env w) (take k ms))"
    using run(1,4) by simp
  have "k \<le> length ms \<and> map fst (run_outcomes env ms w) = take k ms
        \<and> rpc_calls (snd (script env ms w))
            = rpc_calls w @ concat (map (request_for env w) (take k ms))
        \<and> (\<forall>i<k. is_failed (snd (run_outcomes env ms w ! i)) \<longrightarrow> Suc i = k)"
    by (intro conjI) (rule run(2) run(3) second third)+
  then have whole: "\<exists>k\<le>length ms. map fst (run_outcomes env ms w) = take k ms
        \<and> rpc_calls (snd (script env ms w))
            = rpc_calls w @ concat (map (request_for env w) (take k ms))
        \<and> (\<forall>i<k. is_failed (snd (run_outcomes env ms w ! i)) \<longrightarrow> Suc i = k)"
    by (rule exI [of _ k])
  show ?thesis
    by (intro conjI) (rule run_migration_calls request_for_length whole)+
qed

text \<open>
  In the failing scenario two entries are processed, each with one call; the rejected
  text \<open>bad sql\<close> is sent once and \<open>c.sql\<close> not at all.
\<close>

theorem no_retry_witness:
  "\<exists>k\<le>length [''a.sql'', ''b.sql'', ''c.sql''].
     [''a.sql'', ''b.sql''] = take k [''a.sql'', ''b.sql'', ''c.sql'']
     \<and> [(''exec_sql'', [(''query'', ''create a'')]), (''exec_sql'', [(''query'', ''bad sql'')])]
         = concat (map (request_for demo_env demo_world) (take k [''a.sql'', ''b.sql'', ''c.sql'']))
     \<and> Suc (Suc 0) = k"
proof -
  let ?ms = "[''a.sql'', ''b.sql'', ''c.sql'']"
  from no_retry [of demo_env "''a.sql''" demo_world ?ms] obtain k where k:
    "k \<le> length ?ms"
    "map fst (run_outcomes demo_env ?ms demo_world) = take k ?ms"
    "rpc_calls (snd (script demo_env ?ms demo_world))
       = rpc_calls demo_world @ concat (map (request_for demo_env demo_world) (take k ?ms))"
    "\<forall>i<k. is_failed (snd (run_outcomes demo_env ?ms demo_world ! i)) \<longrightarrow> Suc i = k"
    by blast
  have "length (map fst (run_outcomes demo_env ?ms demo_world)) = length (take k ?ms)"
    by (simp only: k(2))
  then have two: "k = Suc (Suc 0)"
    using k(1) by (simp add: demo_fail_outcomes)
  have "is_failed (snd (run_outcomes demo_env ?ms demo_world ! Suc 0))"
    by (simp add: demo_fail_outcomes is_failed_def)
  then have "Suc (Suc 0) = k" using k(4) two by blast
  moreover have "[''a.sql'', ''b.sql''] = take k ?ms"
    using k(2) by (simp add: demo_fail_outcomes)
  moreover have "[(''exec_sql'', [(''query'', ''create a'')]), (''exec_sql'', [(''query'', ''bad sql'')])]
         = concat (map (request_for demo_env demo_world) (take k ?ms))"
    using k(3) by (simp add: demo_fail) (simp add: demo_world_def)
  ultimately show ?thesis using k(1) by (intro exI [of _ k] conjI)
qed

text \<open>
  C9. The local filesystem is only read: after one migration, and after a whole run, it
  holds what it held before. The only other state the script changes is the remote side
  (through the calls it makes) and the console.
\<close>

theorem local_files_only_read:
  "files (snd (run_migration env f w)) = files w
   \<and> files (snd (main env ms w)) = files w
   \<and> files (snd (script env ms w)) = files w"
proof -
  from script_run [of env ms w] obtain code w' where
    "script env ms w = (code, w')" "snd (main env ms w) = w'" "files w' = files w"
    by blast
  then show ?thesis using run_migration_frame [of env f w] by simp
qed

text \<open>
  C10. The \<open>try\<close> block also covers the local read. When the resolved path exists but
  opening or reading it raises, \<open>run_migration\<close> catches the exception: the outcome is
  Failed with the stringified error, not SkippedMissing, no remote call is made, and
  the run stops there with exit code 1.
\<close>

theorem read_error_fails_migration:
  assumes unreadable: "files w (joinpath (migrations_dir env) f) = Unreadable (Exception msg)"
  shows "exists (joinpath (migrations_dir env) f) w = Inr True
     \<and> try_block env (joinpath (migrations_dir env) f) f w = (Inl (Exception msg), w)
     \<and> run_migration env f w = (Inr False, print (Error f msg) w)
     \<and> outcomes (printed w (snd (run_migration env f w))) = [(f, Failed msg)]
     \<and> rpc_calls (snd (run_migration env f w)) = rpc_calls w
     \<and> for_migrations env (f # rest) w =
         (Inr (Some 1), print Stopping (print (MigrationFailed f) (print (Error f msg) w)))
     \<and> script env (f # rest) w =
         (1, print Stopping (print (MigrationFailed f) (print (Error f msg)
               (header (f # rest) w))))"
proof -
  have one: "run_migration env f w = (Inr False, print (Error f msg) w)"
    by (rule run_migration_unreadable [OF unreadable])
  have "files (header (f # rest) w) (joinpath (migrations_dir env) f) = Unreadable (Exception msg)"
    using unreadable by (simp add: header_files)
  then have two: "run_migration env f (header (f # rest) w)
      = (Inr False, print (Error f msg) (header (f # rest) w))"
    by (rule run_migration_unreadable)
  have blk: "try_block env (joinpath (migrations_dir env) f) f w = (Inl (Exception msg), w)"
    using unreadable by (simp add: try_block_def open_read_def)
  show ?thesis
    using unreadable one two blk
    by (simp add: exists_def printed_print outcomes_single script_def main_def)
       (simp add: print_def)
qed

theorem read_error_fails_migration_witness:
  "demo_files (joinpath (migrations_dir demo_env) ''d.sql'')
       = Unreadable (Exception ''[Errno 21] Is a directory'')
   \<and> run_migration demo_env ''d.sql'' demo_world =
       (Inr False, \<lparr>files = demo_files, remote = 0, rpc_calls = [],
          stdout = [Error ''d.sql'' ''[Errno 21] Is a directory'']\<rparr>)
   \<and> script demo_env [''d.sql'', ''a.sql''] demo_world =
       (1, \<lparr>files = demo_files, remote = 0, rpc_calls = [],
          stdout = [Banner, Project, Total 2, Error ''d.sql'' ''[Errno 21] Is a directory'',
                    MigrationFailed ''d.sql'', Stopping]\<rparr>)"
proof -
  have h: "files demo_world (joinpath (migrations_dir demo_env) ''d.sql'')
       = Unreadable (Exception ''[Errno 21] Is a directory'')"
    by (simp add: demo_defs)
  show ?thesis
    using read_error_fails_migration [OF h, of "[''a.sql'']"] h
    by (simp add: print_def header_def) (simp add: demo_world_def)
qed

end
